theory Spec2Isabelle
  imports
    Complex_Main
    "HOL-Library.Char_ord"
    "HOL-Library.List_Lexorder"
    "HOL-Library.Product_Lexorder"
begin

section \<open>Annualized returns and volatility (main.py)\<close>

text \<open>
  The script works on polars data frames. A frame is modelled as the list of its rows,
  a row as a record with one field per column, and a nullable float cell as
  \<open>real option\<close>, \<open>None\<close> being the null of polars. Floats are read as real
  numbers: rounding, overflow, infinities and NaN are outside the model. On real numbers
  \<open>ln\<close> is the natural logarithm for positive arguments (and \<open>ln \<bar>x\<bar>\<close>, \<open>ln 0 = 0\<close>
  otherwise, where numpy gives NaN or an infinity), so the numeric statements read as the
  source computes them for series of positive prices.
\<close>

subsection \<open>Tables\<close>

text \<open>A calendar date: year, month, day.\<close>

type_synonym pl_date = "int \<times> nat \<times> nat"

text \<open>
  A row of the frame returned by yfinance, after \<open>reset_index\<close>: the \<open>Date\<close>
  column is a timestamp (calendar date and time of day), \<open>Close\<close> a nullable float.
  The other columns of the provider are dropped by the \<open>select\<close> of
  \<open>clean_historical_data\<close> and are not modelled.
\<close>

record raw_row =
  Date :: "pl_date \<times> nat"
  Close :: "real option"

text \<open>The columns \<open>year\<close> and \<open>ticker\<close>, shared by every table of the script.\<close>

record key_row =
  year :: int
  ticker :: string

text \<open>The normalized price table: \<open>date\<close>, \<open>close\<close>, \<open>year\<close>, \<open>ticker\<close>.\<close>

record price_row = key_row +
  date :: pl_date
  close :: "real option"

text \<open>The price table after \<open>with_columns(log_returns = ...)\<close>.\<close>

record returns_row = price_row +
  log_returns :: "real option"

text \<open>The table \<open>yearly\<close>: the aggregates of one year, and the ticker literal.\<close>

record yearly_row = key_row +
  yearly_log_returns :: "real option"
  yearly_std :: "real option"
  count :: nat

text \<open>The yearly statistics: the result of \<open>calculate_returns_and_std\<close>,
  and the input and result of \<open>construct_index\<close>.\<close>

record stat_row = key_row +
  annualized_log_returns :: "real option"
  annualized_std :: "real option"

datatype error = IndexError | ValueError

definition WEEKS_IN_A_YEAR :: nat where
  "WEEKS_IN_A_YEAR = 52"

subsection \<open>Column operations of polars\<close>

text \<open>\<open>shift(1)\<close>: every value moves one row down, the first cell becomes null, the
  last value is dropped; the length is kept.\<close>

definition shift1 :: "'a option list \<Rightarrow> 'a option list" where
  "shift1 xs = (if xs = [] then [] else None # butlast xs)"

text \<open>Division of two nullable cells: null when either side is null.\<close>

fun div_cell :: "real option \<Rightarrow> real option \<Rightarrow> real option" where
  "div_cell (Some a) (Some b) = Some (a / b)"
| "div_cell _ _ = None"

text \<open>A numpy function applied to a column keeps the nulls.\<close>

definition np_log :: "real option \<Rightarrow> real option" where
  "np_log c = map_option ln c"

definition drop_nulls :: "'a option list \<Rightarrow> 'a list" where
  "drop_nulls xs = List.map_filter (\<lambda>c. c) xs"

text \<open>\<open>mean()\<close>: the mean of the non-null values, null when there is none.\<close>

definition pl_mean :: "real option list \<Rightarrow> real option" where
  "pl_mean xs =
     (let vs = drop_nulls xs
      in if vs = [] then None else Some (sum_list vs / real (length vs)))"

text \<open>\<open>std()\<close>: the sample standard deviation (one delta degree of freedom) of the
  non-null values, null when there are fewer than two of them.\<close>

definition pl_std :: "real option list \<Rightarrow> real option" where
  "pl_std xs =
     (let vs = drop_nulls xs; n = length vs
      in if n \<le> 1 then None
         else let m = sum_list vs / real n
              in Some (sqrt (sum_list (map (\<lambda>x. (x - m)\<^sup>2) vs) / real (n - 1))))"

text \<open>\<open>count(column)\<close>: the number of non-null values.\<close>

definition pl_count :: "'a option list \<Rightarrow> nat" where
  "pl_count xs = length (drop_nulls xs)"

text \<open>
  \<open>group_by("year")\<close>: one group per distinct year, holding the rows of that year in
  their order. polars leaves the order of the groups open; both callers sort the result
  by a key in which the years of the groups are pairwise different, so the order chosen
  here does not show in any result.
\<close>

definition group_by_year :: "'a key_row_scheme list \<Rightarrow> (int \<times> 'a key_row_scheme list) list" where
  "group_by_year df = map (\<lambda>y. (y, filter (\<lambda>r. year r = y) df)) (remdups (map year df))"

text \<open>\<open>pl.concat\<close> refuses an empty list of frames.\<close>

definition pl_concat :: "'a list list \<Rightarrow> error + 'a list" where
  "pl_concat dfs = (if dfs = [] then Inl ValueError else Inr (concat dfs))"

subsection \<open>clean_historical_data\<close>

definition clean_historical_data :: "string \<Rightarrow> raw_row list \<Rightarrow> price_row list" where
  "clean_historical_data tk df_pd =
     map (\<lambda>r. \<lparr>year = fst (fst (Date r)), ticker = tk,
               date = fst (Date r), close = Close r\<rparr>) df_pd"

subsection \<open>calculate_returns_and_std\<close>

text \<open>The column \<open>log(close / close.shift(1))\<close>.\<close>

definition log_returns_col :: "real option list \<Rightarrow> real option list" where
  "log_returns_col cs = map np_log (map2 div_cell cs (shift1 cs))"

definition with_log_returns :: "price_row list \<Rightarrow> returns_row list" where
  "with_log_returns df_pl =
     map2 (\<lambda>r l. \<lparr>year = year r, ticker = ticker r, date = date r, close = close r,
                  log_returns = l\<rparr>)
       df_pl (log_returns_col (map close df_pl))"

text \<open>The aggregation of one group, with the ticker literal added.\<close>

definition agg_year :: "string \<Rightarrow> int \<times> returns_row list \<Rightarrow> yearly_row" where
  "agg_year tk yg =
     \<lparr>year = fst yg, ticker = tk,
      yearly_log_returns = pl_mean (map log_returns (snd yg)),
      yearly_std = pl_std (map log_returns (snd yg)),
      count = pl_count (map log_returns (snd yg))\<rparr>"

definition yearly :: "string \<Rightarrow> returns_row list \<Rightarrow> yearly_row list" where
  "yearly tk df = map (agg_year tk) (group_by_year df)"

definition annualize :: "yearly_row \<Rightarrow> stat_row" where
  "annualize r =
     \<lparr>year = year r, ticker = ticker r,
      annualized_log_returns = map_option (\<lambda>m. exp (m * 52) - 1) (yearly_log_returns r),
      annualized_std = map_option (\<lambda>s. s * sqrt (real WEEKS_IN_A_YEAR)) (yearly_std r)\<rparr>"

text \<open>
  The ticker is read from row 0 of the \<open>ticker\<close> column; on a frame without rows that
  index is out of bounds and the call raises.
\<close>

definition calculate_returns_and_std :: "price_row list \<Rightarrow> error + stat_row list" where
  "calculate_returns_and_std df_pl =
     (let df = with_log_returns df_pl
      in case df of
           [] \<Rightarrow> Inl IndexError
         | r0 # _ \<Rightarrow>
             Inr (sort_key (\<lambda>r. (ticker r, year r))
                    (map annualize (yearly (ticker r0) df))))"

subsection \<open>concat_selected_tickers\<close>

text \<open>
  The loop over the tickers. The download \<open>yf.Ticker(ticker).history(...)\<close> is the
  parameter \<open>history\<close>; an exception of \<open>calculate_returns_and_std\<close> ends the loop.
\<close>

fun ticker_dfs :: "(string \<Rightarrow> raw_row list) \<Rightarrow> string list \<Rightarrow> error + stat_row list list" where
  "ticker_dfs history [] = Inr []"
| "ticker_dfs history (tk # tks) =
     (case calculate_returns_and_std (clean_historical_data tk (history tk)) of
        Inl e \<Rightarrow> Inl e
      | Inr ticker_df \<Rightarrow>
          (case ticker_dfs history tks of
             Inl e \<Rightarrow> Inl e
           | Inr rest \<Rightarrow> Inr (ticker_df # rest)))"

definition concat_selected_tickers ::
  "(string \<Rightarrow> raw_row list) \<Rightarrow> string list \<Rightarrow> error + stat_row list" where
  "concat_selected_tickers history tickers =
     (case ticker_dfs history tickers of
        Inl e \<Rightarrow> Inl e
      | Inr dfs \<Rightarrow>
          (case pl_concat dfs of
             Inl e \<Rightarrow> Inl e
           | Inr df \<Rightarrow> Inr (filter (\<lambda>r. year r \<noteq> 2025) df)))"

subsection \<open>construct_index\<close>

definition index_year :: "int \<times> stat_row list \<Rightarrow> stat_row" where
  "index_year yg =
     \<lparr>year = fst yg, ticker = ''INDEX'',
      annualized_log_returns = pl_mean (map annualized_log_returns (snd yg)),
      annualized_std = pl_mean (map annualized_std (snd yg))\<rparr>"

definition construct_index :: "stat_row list \<Rightarrow> stat_row list" where
  "construct_index combined_df = sort_key year (map index_year (group_by_year combined_df))"

subsection \<open>Example inputs\<close>

text \<open>Two weekly closes, 100 and 110, in one calendar year.\<close>

definition two_point_series :: "price_row list" where
  "two_point_series =
     [\<lparr>year = 2024, ticker = ''SPY'', date = (2024, 1, 1), close = Some 100\<rparr>,
      \<lparr>year = 2024, ticker = ''SPY'', date = (2024, 1, 8), close = Some 110\<rparr>]"

text \<open>
  A weekly series that crosses two year boundaries: one close in 2023, two in 2024, one
  in 2025, growing by a tenth per week until the last one.
\<close>

definition boundary_series :: "price_row list" where
  "boundary_series =
     [\<lparr>year = 2023, ticker = ''SPY'', date = (2023, 12, 25), close = Some 100\<rparr>,
      \<lparr>year = 2024, ticker = ''SPY'', date = (2024, 1, 1), close = Some 110\<rparr>,
      \<lparr>year = 2024, ticker = ''SPY'', date = (2024, 1, 8), close = Some 121\<rparr>,
      \<lparr>year = 2025, ticker = ''SPY'', date = (2025, 1, 6), close = Some 121\<rparr>]"

text \<open>
  The yearly statistics of that series.
\<close>

definition boundary_stats :: "stat_row list" where
  "boundary_stats =
     [\<lparr>year = 2023, ticker = ''SPY'', annualized_log_returns = None, annualized_std = None\<rparr>,
      \<lparr>year = 2024, ticker = ''SPY'',
       annualized_log_returns = Some (exp (52 * ln (11 / 10)) - 1),
       annualized_std = Some 0\<rparr>,
      \<lparr>year = 2025, ticker = ''SPY'', annualized_log_returns = Some 0, annualized_std = None\<rparr>]"

text \<open>
  The yearly statistics of the two-point series.
\<close>

definition two_point_stats :: "stat_row list" where
  "two_point_stats =
     [\<lparr>year = 2024, ticker = ''SPY'',
       annualized_log_returns = Some (exp (52 * ln (11 / 10)) - 1),
       annualized_std = None\<rparr>]"

text \<open>
  A download that returns the same three weekly closes for every ticker, the last of
  them in 2025.
\<close>

definition example_history :: "string \<Rightarrow> raw_row list" where
  "example_history tk =
     [\<lparr>Date = ((2024, 12, 23), 0), Close = Some 100\<rparr>,
      \<lparr>Date = ((2024, 12, 30), 0), Close = Some 110\<rparr>,
      \<lparr>Date = ((2025, 1, 6), 0), Close = Some 121\<rparr>]"

text \<open>
  The combined frame of that download for two tickers.
\<close>

definition example_combined :: "stat_row list" where
  "example_combined =
     [\<lparr>year = 2024, ticker = ''TSLA'',
       annualized_log_returns = Some (exp (52 * ln (11 / 10)) - 1),
       annualized_std = None\<rparr>,
      \<lparr>year = 2024, ticker = ''SPY'',
       annualized_log_returns = Some (exp (52 * ln (11 / 10)) - 1),
       annualized_std = None\<rparr>]"

text \<open>
  A union of yearly statistics of two tickers that share the year 2024, one of them
  with a null standard deviation there, and its index.
\<close>

definition two_ticker_stats :: "stat_row list" where
  "two_ticker_stats =
     [\<lparr>year = 2024, ticker = ''HP'', annualized_log_returns = Some (3 / 10),
       annualized_std = None\<rparr>,
      \<lparr>year = 2023, ticker = ''HP'', annualized_log_returns = Some (1 / 10),
       annualized_std = Some (1 / 5)\<rparr>,
      \<lparr>year = 2024, ticker = ''GME'', annualized_log_returns = Some (1 / 2),
       annualized_std = Some (2 / 5)\<rparr>]"

definition two_ticker_index :: "stat_row list" where
  "two_ticker_index =
     [\<lparr>year = 2023, ticker = ''INDEX'', annualized_log_returns = Some (1 / 10),
       annualized_std = Some (1 / 5)\<rparr>,
      \<lparr>year = 2024, ticker = ''INDEX'', annualized_log_returns = Some (2 / 5),
       annualized_std = Some (2 / 5)\<rparr>]"

section \<open>Properties\<close>

subsection \<open>The log-return column\<close>

lemma length_shift1: "length (shift1 xs) = length xs"
  by (cases xs rule: rev_cases) (simp_all add: shift1_def)

lemma shift1_nth:
  "i < length xs \<Longrightarrow> shift1 xs ! i = (if i = 0 then None else xs ! (i - 1))"
  by (cases i) (auto simp: shift1_def nth_butlast)

lemma length_log_returns_col: "length (log_returns_col cs) = length cs"
  by (simp add: log_returns_col_def length_shift1)

lemma log_returns_col_nth:
  "i < length cs \<Longrightarrow>
   log_returns_col cs ! i = (if i = 0 then None else np_log (div_cell (cs ! i) (cs ! (i - 1))))"
  by (cases "cs ! i") (simp_all add: log_returns_col_def length_shift1 shift1_nth np_log_def)

lemma length_with_log_returns: "length (with_log_returns df) = length df"
  by (simp add: with_log_returns_def length_log_returns_col)

lemma with_log_returns_nth:
  "i < length df \<Longrightarrow>
   with_log_returns df ! i =
     \<lparr>year = year (df ! i), ticker = ticker (df ! i), date = date (df ! i),
      close = close (df ! i), log_returns = log_returns_col (map close df) ! i\<rparr>"
  by (simp add: with_log_returns_def length_log_returns_col)

lemma np_log_div_cell:
  "np_log (div_cell a b) = (case (a, b) of (Some c, Some p) \<Rightarrow> Some (ln (c / p)) | _ \<Rightarrow> None)"
  by (cases a; cases b) (simp_all add: np_log_def)

text \<open>
  C1. The frame with the log-return column has the rows of the input. The log-return of
  row 0 is null; the log-return of every later row is the natural logarithm of its close
  divided by the close of the row just before it (null when either close is null).
\<close>

theorem log_returns_consecutive_ratio:
  "length (with_log_returns df) = length df \<and>
   (\<forall>i < length df.
      log_returns (with_log_returns df ! i) =
        (if i = 0 then None
         else case (close (df ! i), close (df ! (i - 1))) of
                (Some c, Some p) \<Rightarrow> Some (ln (c / p))
              | _ \<Rightarrow> None))"
  by (simp add: length_with_log_returns with_log_returns_nth log_returns_col_nth np_log_div_cell)

theorem log_returns_consecutive_ratio_witness:
  "length (with_log_returns two_point_series) = 2 \<and>
   log_returns (with_log_returns two_point_series ! 0) = None \<and>
   log_returns (with_log_returns two_point_series ! 1) = Some (ln (11 / 10))"
  using log_returns_consecutive_ratio [of two_point_series]
  by (simp add: two_point_series_def)

subsection \<open>The rows of the yearly statistics\<close>

lemma map_year_with_log_returns: "map year (with_log_returns df) = map year df"
  by (rule nth_equalityI) (simp_all add: length_with_log_returns with_log_returns_nth)

lemma calculate_returns_and_std_empty: "calculate_returns_and_std [] = Inl IndexError"
  by (simp add: calculate_returns_and_std_def with_log_returns_def)

lemma calculate_returns_and_std_nonempty:
  assumes "df \<noteq> []"
  shows "calculate_returns_and_std df =
           Inr (sort_key (\<lambda>r. (ticker r, year r))
                  (map annualize (yearly (ticker (hd df)) (with_log_returns df))))"
proof -
  from assms have pos: "0 < length df" by simp
  then have "with_log_returns df \<noteq> []"
    using length_with_log_returns [of df] by auto
  then obtain r0 rest where split: "with_log_returns df = r0 # rest"
    by (cases "with_log_returns df") auto
  have "r0 = with_log_returns df ! 0" by (simp add: split)
  with pos have "ticker r0 = ticker (df ! 0)" by (simp add: with_log_returns_nth)
  with assms have "ticker r0 = ticker (hd df)" by (simp add: hd_conv_nth)
  then show ?thesis
    by (simp add: calculate_returns_and_std_def split)
qed

lemma distinct_map_sort_key:
  "distinct (map f (sort_key k xs)) = distinct (map f xs)"
  by (simp add: distinct_map)

lemma map_year_group_by_year:
  "map fst (group_by_year df) = remdups (map year df)"
  by (simp add: group_by_year_def comp_def)

lemma set_group_by_year:
  "set (group_by_year df) = (\<lambda>y. (y, filter (\<lambda>r. year r = y) df)) ` year ` set df"
  by (simp add: group_by_year_def)

lemma year_annualize: "year (annualize r) = year r"
  by (simp add: annualize_def)

lemma year_agg_year: "year (agg_year tk yg) = fst yg"
  by (simp add: agg_year_def)

lemma map_year_yearly: "map year (yearly tk df) = remdups (map year df)"
  by (simp add: yearly_def comp_def year_agg_year group_by_year_def)

lemma set_yearly:
  "set (yearly tk df) = (\<lambda>y. agg_year tk (y, filter (\<lambda>r. year r = y) df)) ` year ` set df"
  by (simp add: yearly_def set_group_by_year image_image)

lemma calculate_returns_and_std_years:
  assumes "calculate_returns_and_std df = Inr out"
  shows "distinct (map year out)" and "year ` set out = year ` set df"
proof -
  from assms have ne: "df \<noteq> []"
    by (auto simp: calculate_returns_and_std_empty)
  let ?ys = "map annualize (yearly (ticker (hd df)) (with_log_returns df))"
  from assms ne have out: "out = sort_key (\<lambda>r. (ticker r, year r)) ?ys"
    by (simp add: calculate_returns_and_std_nonempty)
  have "map year ?ys = map year (yearly (ticker (hd df)) (with_log_returns df))"
    by (simp add: comp_def year_annualize)
  then have ys: "map year ?ys = remdups (map year df)"
    by (simp only: map_year_yearly map_year_with_log_returns)
  show "distinct (map year out)"
    unfolding out distinct_map_sort_key ys by simp
  have "year ` set out = set (map year ?ys)"
    unfolding out by (simp add: image_image)
  also have "\<dots> = year ` set df"
    unfolding ys by simp
  finally show "year ` set out = year ` set df" .
qed

lemma calculate_returns_and_std_row:
  assumes "calculate_returns_and_std df = Inr out" and "r \<in> set out"
  shows "r = annualize (agg_year (ticker (hd df))
               (year r, filter (\<lambda>x. year x = year r) (with_log_returns df)))"
proof -
  from assms have ne: "df \<noteq> []"
    by (auto simp: calculate_returns_and_std_empty)
  from assms ne have "r \<in> annualize ` set (yearly (ticker (hd df)) (with_log_returns df))"
    by (auto simp: calculate_returns_and_std_nonempty)
  then obtain y where
    r: "r = annualize (agg_year (ticker (hd df))
              (y, filter (\<lambda>x. year x = y) (with_log_returns df)))"
    by (auto simp: set_yearly)
  then have "year r = y"
    by (simp add: year_annualize year_agg_year)
  with r show ?thesis by simp
qed

subsection \<open>The examples, evaluated\<close>

lemma drop_nulls_simps:
  "drop_nulls [] = []"
  "drop_nulls (None # xs) = drop_nulls xs"
  "drop_nulls (Some x # xs) = x # drop_nulls xs"
  by (simp_all add: drop_nulls_def List.map_filter_def)

lemma pl_mean_simps:
  "pl_mean [] = None"
  "pl_mean (None # xs) = pl_mean xs"
  "pl_mean [Some v] = Some v"
  by (simp_all add: pl_mean_def drop_nulls_def List.map_filter_def)

lemmas eval_defs =
  calculate_returns_and_std_def with_log_returns_def log_returns_col_def
  shift1_def np_log_def yearly_def group_by_year_def agg_year_def
  annualize_def pl_mean_def pl_std_def pl_count_def drop_nulls_def List.map_filter_def
  WEEKS_IN_A_YEAR_def

lemma wlr_boundary: "with_log_returns boundary_series =
     [\<lparr>year = 2023, ticker = ''SPY'', date = (2023, 12, 25), close = Some 100, log_returns = None\<rparr>,
      \<lparr>year = 2024, ticker = ''SPY'', date = (2024, 1, 1), close = Some 110, log_returns = Some (ln (11 / 10))\<rparr>,
      \<lparr>year = 2024, ticker = ''SPY'', date = (2024, 1, 8), close = Some 121, log_returns = Some (ln (11 / 10))\<rparr>,
      \<lparr>year = 2025, ticker = ''SPY'', date = (2025, 1, 6), close = Some 121, log_returns = Some 0\<rparr>]"
  by (simp add: eval_defs boundary_series_def)

lemma calc_boundary:
  "calculate_returns_and_std boundary_series =
     Inr [\<lparr>year = 2023, ticker = ''SPY'', annualized_log_returns = None, annualized_std = None\<rparr>,
          \<lparr>year = 2024, ticker = ''SPY'',
           annualized_log_returns = Some (exp (52 * ln (11 / 10)) - 1),
           annualized_std = Some 0\<rparr>,
          \<lparr>year = 2025, ticker = ''SPY'', annualized_log_returns = Some 0, annualized_std = None\<rparr>]"
  by (simp add: eval_defs boundary_series_def mult.commute)

lemma calc_boundary_stats: "calculate_returns_and_std boundary_series = Inr boundary_stats"
  by (simp add: calc_boundary boundary_stats_def)

lemma boundary_series_nth:
  "boundary_series ! 1 \<in> set boundary_series"
  "boundary_series ! 3 \<in> set boundary_series"
  "year (boundary_series ! 1) = 2024"
  "year (boundary_series ! 3) = 2025"
  by (simp_all add: boundary_series_def)

lemma boundary_groups:
  "map log_returns (filter (\<lambda>x. year x = 2024) (with_log_returns boundary_series)) =
     [Some (ln (11 / 10)), Some (ln (11 / 10))]"
  "map log_returns (filter (\<lambda>x. year x = 2025) (with_log_returns boundary_series)) = [Some 0]"
  by (simp_all add: wlr_boundary)

lemma calc_two_point_stats: "calculate_returns_and_std two_point_series = Inr two_point_stats"
  by (simp add: eval_defs two_point_series_def two_point_stats_def mult.commute)

lemma calc_example_history:
  "calculate_returns_and_std (clean_historical_data tk (example_history tk)) =
     Inr [\<lparr>year = 2024, ticker = tk,
            annualized_log_returns = Some (exp (52 * ln (11 / 10)) - 1),
            annualized_std = None\<rparr>,
          \<lparr>year = 2025, ticker = tk,
            annualized_log_returns = Some (exp (52 * ln (11 / 10)) - 1),
            annualized_std = None\<rparr>]"
  by (simp add: eval_defs clean_historical_data_def example_history_def mult.commute)

lemma concat_example:
  "concat_selected_tickers example_history [''TSLA'', ''SPY''] = Inr example_combined"
  by (simp add: concat_selected_tickers_def calc_example_history pl_concat_def
      example_combined_def)

lemma construct_index_two_ticker: "construct_index two_ticker_stats = two_ticker_index"
  by (simp add: construct_index_def group_by_year_def index_year_def pl_mean_def
      drop_nulls_simps two_ticker_stats_def two_ticker_index_def)

subsection \<open>Annualization\<close>

lemma calculate_returns_and_std_cells:
  assumes "calculate_returns_and_std df = Inr out" and "r \<in> set out"
  defines "g \<equiv> map log_returns (filter (\<lambda>x. year x = year r) (with_log_returns df))"
  shows "annualized_std r = map_option (\<lambda>s. s * sqrt 52) (pl_std g)"
    and "annualized_log_returns r = map_option (\<lambda>m. exp (m * 52) - 1) (pl_mean g)"
    and "ticker r = ticker (hd df)"
proof -
  let ?row = "annualize (agg_year (ticker (hd df))
               (year r, filter (\<lambda>x. year x = year r) (with_log_returns df)))"
  have r: "r = ?row"
    using assms(1,2) by (rule calculate_returns_and_std_row)
  have "annualized_std ?row = map_option (\<lambda>s. s * sqrt 52) (pl_std g)"
    by (simp add: annualize_def agg_year_def g_def WEEKS_IN_A_YEAR_def)
  with r show "annualized_std r = map_option (\<lambda>s. s * sqrt 52) (pl_std g)" by simp
  have "annualized_log_returns ?row = map_option (\<lambda>m. exp (m * 52) - 1) (pl_mean g)"
    by (simp add: annualize_def agg_year_def g_def)
  with r show "annualized_log_returns r = map_option (\<lambda>m. exp (m * 52) - 1) (pl_mean g)" by simp
  have "ticker ?row = ticker (hd df)"
    by (simp add: annualize_def agg_year_def)
  with r show "ticker r = ticker (hd df)" by simp
qed

lemma calculate_returns_and_std_has_year:
  assumes "calculate_returns_and_std df = Inr out" and "row \<in> set df"
  shows "\<exists>r\<in>set out. year r = year row"
proof -
  from assms(2) have "year row \<in> year ` set df" by simp
  with calculate_returns_and_std_years(2) [OF assms(1)] have "year row \<in> year ` set out"
    by simp
  then show ?thesis by auto
qed

text \<open>
  C2. For every year of the input, the result has a row of that year, and in every
  such row \<open>annualized_std\<close> is the sample standard deviation \<open>s\<close> of the
  year's log-returns times the square root of 52, and \<open>annualized_log_returns\<close> is
  \<open>exp (52 * m) - 1\<close> for their mean \<open>m\<close>; a null aggregate gives a null cell.
\<close>

theorem annualization:
  assumes "calculate_returns_and_std df = Inr out"
    and "row \<in> set df"
    and "g = map log_returns (filter (\<lambda>x. year x = year row) (with_log_returns df))"
  shows "(\<exists>r\<in>set out. year r = year row) \<and>
         (\<forall>r\<in>set out. year r = year row \<longrightarrow>
            annualized_std r =
              (case pl_std g of None \<Rightarrow> None | Some s \<Rightarrow> Some (s * sqrt 52)) \<and>
            annualized_log_returns r =
              (case pl_mean g of None \<Rightarrow> None | Some m \<Rightarrow> Some (exp (52 * m) - 1)))"
proof (intro conjI ballI impI)
  show "\<exists>r\<in>set out. year r = year row"
    using assms(1,2) by (rule calculate_returns_and_std_has_year)
next
  fix r assume r: "r \<in> set out" and y: "year r = year row"
  from calculate_returns_and_std_cells(1) [OF assms(1) r] y assms(3)
  show "annualized_std r = (case pl_std g of None \<Rightarrow> None | Some s \<Rightarrow> Some (s * sqrt 52))"
    by (simp add: map_option_case)
next
  fix r assume r: "r \<in> set out" and y: "year r = year row"
  from calculate_returns_and_std_cells(2) [OF assms(1) r] y assms(3)
  show "annualized_log_returns r =
          (case pl_mean g of None \<Rightarrow> None | Some m \<Rightarrow> Some (exp (52 * m) - 1))"
    by (simp add: map_option_case mult.commute split: option.split)
qed

theorem annualization_witness:
  "calculate_returns_and_std boundary_series = Inr boundary_stats \<and>
   boundary_series ! 1 \<in> set boundary_series \<and>
   pl_mean [Some (ln (11 / 10)), Some (ln (11 / 10))] = Some (ln (11 / 10)) \<and>
   pl_std [Some (ln (11 / 10)), Some (ln (11 / 10))] = Some 0 \<and>
   (\<exists>r\<in>set boundary_stats. year r = 2024) \<and>
   annualized_std (boundary_stats ! 1) = Some (0 * sqrt 52) \<and>
   annualized_log_returns (boundary_stats ! 1) = Some (exp (52 * ln (11 / 10)) - 1)"
proof -
  have g: "[Some (ln (11 / 10)), Some (ln (11 / 10))] =
      map log_returns
        (filter (\<lambda>x. year x = year (boundary_series ! 1)) (with_log_returns boundary_series))"
    by (simp only: boundary_series_nth boundary_groups)
  have m: "pl_mean [Some (ln (11 / 10)), Some (ln (11 / 10))] = Some (ln (11 / 10))"
    by (simp add: pl_mean_def drop_nulls_def List.map_filter_def)
  have s: "pl_std [Some (ln (11 / 10)), Some (ln (11 / 10))] = Some 0"
    by (simp add: pl_std_def drop_nulls_def List.map_filter_def)
  have r: "boundary_stats ! 1 \<in> set boundary_stats" "year (boundary_stats ! 1) = 2024"
    by (simp_all add: boundary_stats_def)
  from annualization [OF calc_boundary_stats boundary_series_nth(1) g] r m s
  show ?thesis
    by (simp del: One_nat_def add: calc_boundary_stats boundary_series_nth)
qed

text \<open>
  C5. A year whose group holds fewer than two non-null log-returns has a null standard
  deviation, so the row of that year has a null \<open>annualized_std\<close>; the call
  returns its table all the same.
\<close>

theorem short_year_std_missing:
  assumes "row \<in> set df"
    and "g = map log_returns (filter (\<lambda>x. year x = year row) (with_log_returns df))"
    and "pl_count g < 2"
  shows "pl_std g = None \<and>
         (\<exists>out. calculate_returns_and_std df = Inr out \<and>
            (\<exists>r\<in>set out. year r = year row) \<and>
            (\<forall>r\<in>set out. year r = year row \<longrightarrow> annualized_std r = None))"
proof -
  from assms(3) have std: "pl_std g = None"
    by (simp add: pl_std_def pl_count_def Let_def)
  from assms(1) have "df \<noteq> []" by auto
  then obtain out where out: "calculate_returns_and_std df = Inr out"
    by (simp add: calculate_returns_and_std_nonempty)
  have "annualized_std r = None" if "r \<in> set out" and "year r = year row" for r
    using calculate_returns_and_std_cells(1) [OF out that(1)] that(2) assms(2) std
    by simp
  with std out calculate_returns_and_std_has_year [OF out assms(1)]
  show ?thesis by blast
qed

theorem short_year_std_missing_witness:
  "boundary_series ! 3 \<in> set boundary_series \<and>
   pl_count [Some (0::real)] < 2 \<and>
   pl_std [Some 0] = None \<and>
   (\<exists>out. calculate_returns_and_std boundary_series = Inr out \<and>
      (\<exists>r\<in>set out. year r = 2025) \<and> annualized_std (out ! 2) = None)"
proof -
  have g: "[Some 0] =
      map log_returns
        (filter (\<lambda>x. year x = year (boundary_series ! 3)) (with_log_returns boundary_series))"
    by (simp only: boundary_series_nth boundary_groups)
  have c: "pl_count [Some (0::real)] < 2"
    by (simp add: pl_count_def drop_nulls_def List.map_filter_def)
  have r: "boundary_stats ! 2 \<in> set boundary_stats" "year (boundary_stats ! 2) = 2025"
    by (simp_all add: boundary_stats_def)
  from short_year_std_missing [OF boundary_series_nth(2) g c] r c
  show ?thesis
    by (simp del: One_nat_def add: calc_boundary_stats boundary_series_nth)
qed

subsection \<open>Year boundaries\<close>

lemma filter_first_hit:
  assumes "i < length xs" and "P (xs ! i)" and "\<forall>j<i. \<not> P (xs ! j)"
  shows "filter P xs = xs ! i # filter P (drop (Suc i) xs)"
proof -
  have none: "filter P (take i xs) = []"
    using assms(1,3) by (auto simp: filter_empty_conv in_set_conv_nth)
  from assms(1) have "xs = take i xs @ xs ! i # drop (Suc i) xs"
    by (simp add: id_take_nth_drop)
  then have "filter P xs = filter P (take i xs @ xs ! i # drop (Suc i) xs)"
    by simp
  also have "\<dots> = xs ! i # filter P (drop (Suc i) xs)"
    using none assms(2) by simp
  finally show ?thesis .
qed

text \<open>
  C10. The first row of a calendar year that is not row 0 of the series, with its own
  close and the close before it present: its log-return is the logarithm of the ratio to
  the last close of the year before, it is the first entry of the new year's group, and
  the yearly row of that year takes its mean, standard deviation and count from that
  group, the count being at least one.
\<close>

theorem first_return_of_year_crosses_boundary:
  assumes "0 < i" and "i < length df"
    and "\<forall>j<i. year (df ! j) \<noteq> year (df ! i)"
    and "close (df ! i) = Some c" and "close (df ! (i - 1)) = Some p"
    and "g = map log_returns (filter (\<lambda>x. year x = year (df ! i)) (with_log_returns df))"
  shows "log_returns (with_log_returns df ! i) = Some (ln (c / p)) \<and>
         g = Some (ln (c / p)) #
               map log_returns
                 (filter (\<lambda>x. year x = year (df ! i)) (drop (Suc i) (with_log_returns df))) \<and>
         (\<exists>r\<in>set (yearly tk (with_log_returns df)).
            year r = year (df ! i) \<and>
            yearly_log_returns r = pl_mean g \<and>
            yearly_std r = pl_std g \<and>
            count r = pl_count g \<and> 0 < count r)"
proof -
  let ?lr = "with_log_returns df"
  let ?y = "year (df ! i)"
  have lr: "log_returns (?lr ! i) = Some (ln (c / p))"
    using assms(1,2,4,5)
    by (simp add: with_log_returns_nth log_returns_col_nth np_log_def)
  have yrs: "year (?lr ! j) = year (df ! j)" if "j < length df" for j
    using that by (simp add: with_log_returns_nth)
  have "filter (\<lambda>x. year x = ?y) ?lr = ?lr ! i # filter (\<lambda>x. year x = ?y) (drop (Suc i) ?lr)"
  proof (rule filter_first_hit)
    show "i < length ?lr" using assms(2) by (simp add: length_with_log_returns)
    show "year (?lr ! i) = ?y" using assms(2) by (simp add: yrs)
    show "\<forall>j<i. year (?lr ! j) \<noteq> ?y" using assms(2,3) by (simp add: yrs)
  qed
  with lr assms(6) have g: "g = Some (ln (c / p)) #
      map log_returns (filter (\<lambda>x. year x = ?y) (drop (Suc i) ?lr))"
    by simp
  then have cnt: "0 < pl_count g"
    by (simp add: pl_count_def drop_nulls_def List.map_filter_def)
  let ?r = "agg_year tk (?y, filter (\<lambda>x. year x = ?y) ?lr)"
  have "?lr ! i \<in> set ?lr"
    using assms(2) by (simp add: length_with_log_returns)
  then have "year (?lr ! i) \<in> year ` set ?lr"
    by (rule imageI)
  then have "?y \<in> year ` set ?lr"
    using assms(2) by (simp only: yrs)
  then have "?r \<in> set (yearly tk ?lr)"
    by (auto simp: set_yearly)
  moreover have "year ?r = ?y \<and> yearly_log_returns ?r = pl_mean g \<and>
      yearly_std ?r = pl_std g \<and> count ?r = pl_count g \<and> 0 < count ?r"
    using cnt assms(6) by (simp add: agg_year_def)
  ultimately have "\<exists>r\<in>set (yearly tk ?lr).
      year r = ?y \<and> yearly_log_returns r = pl_mean g \<and>
      yearly_std r = pl_std g \<and> count r = pl_count g \<and> 0 < count r"
    by (rule rev_bexI)
  with lr g show ?thesis by (intro conjI)
qed

theorem first_return_of_year_crosses_boundary_witness:
  "(0::nat) < 1 \<and> 1 < length boundary_series \<and>
   year (boundary_series ! 0) \<noteq> year (boundary_series ! 1) \<and>
   close (boundary_series ! 1) = Some 110 \<and>
   close (boundary_series ! (1 - 1)) = Some 100 \<and>
   log_returns (with_log_returns boundary_series ! 1) = Some (ln (110 / 100)) \<and>
   [Some (ln (11 / 10)), Some (ln (11 / 10))] =
     Some (ln (110 / 100)) #
       map log_returns
         (filter (\<lambda>x. year x = year (boundary_series ! 1))
            (drop (Suc 1) (with_log_returns boundary_series))) \<and>
   (\<exists>r\<in>set (yearly ''SPY'' (with_log_returns boundary_series)).
      year r = year (boundary_series ! 1) \<and>
      yearly_log_returns r = pl_mean [Some (ln (11 / 10)), Some (ln (11 / 10))] \<and>
      yearly_std r = pl_std [Some (ln (11 / 10)), Some (ln (11 / 10))] \<and>
      count r = pl_count [Some (ln (11 / 10 :: real)), Some (ln (11 / 10))] \<and>
      0 < count r)"
proof -
  have h: "(0::nat) < 1" "1 < length boundary_series"
    "\<forall>j<1. year (boundary_series ! j) \<noteq> year (boundary_series ! 1)"
    "close (boundary_series ! 1) = Some 110"
    "close (boundary_series ! (1 - 1)) = Some 100"
    by (simp_all add: boundary_series_def)
  have h3: "year (boundary_series ! 0) \<noteq> year (boundary_series ! 1)"
    by (simp add: boundary_series_def)
  have g: "[Some (ln (11 / 10)), Some (ln (11 / 10))] =
      map log_returns
        (filter (\<lambda>x. year x = year (boundary_series ! 1)) (with_log_returns boundary_series))"
    by (simp only: boundary_series_nth boundary_groups)
  note first_return_of_year_crosses_boundary [OF h g, of "''SPY''"]
  with h(1,2) h3 h(4,5) show ?thesis
    by (elim conjE) (intro conjI; assumption)
qed

subsection \<open>Empty input and row order\<close>

text \<open>
  C9. On a frame without rows the call raises \<open>IndexError\<close>; on every frame
  with at least one row it returns a table, which is not empty.
\<close>

theorem calculate_returns_and_std_needs_rows:
  "calculate_returns_and_std [] = Inl IndexError \<and>
   (df \<noteq> [] \<longrightarrow> (\<exists>out. calculate_returns_and_std df = Inr out \<and> out \<noteq> []))"
proof -
  have "\<exists>out. calculate_returns_and_std df = Inr out \<and> out \<noteq> []" if ne: "df \<noteq> []"
  proof -
    from ne obtain out where out: "calculate_returns_and_std df = Inr out"
      by (simp add: calculate_returns_and_std_nonempty)
    from ne have "year ` set df \<noteq> {}" by simp
    with calculate_returns_and_std_years(2) [OF out] have "out \<noteq> []" by auto
    with out show ?thesis by blast
  qed
  then show ?thesis
    by (simp add: calculate_returns_and_std_empty)
qed

theorem calculate_returns_and_std_needs_rows_witness:
  "two_point_series \<noteq> [] \<and> (\<exists>out. calculate_returns_and_std two_point_series = Inr out \<and> out \<noteq> [])"
  using calculate_returns_and_std_needs_rows [of two_point_series]
  by (simp add: two_point_series_def)

text \<open>
  C6. The result of \<open>calculate_returns_and_std\<close> is sorted by ticker, then year;
  the result of \<open>construct_index\<close> is sorted by year.
\<close>

theorem outputs_sorted:
  "(calculate_returns_and_std df = Inr out \<longrightarrow>
      sorted (map (\<lambda>r. (ticker r, year r)) out)) \<and>
   sorted (map year (construct_index combined_df))"
proof -
  have "sorted (map (\<lambda>r. (ticker r, year r)) out)"
    if out: "calculate_returns_and_std df = Inr out"
  proof -
    from out have "df \<noteq> []"
      by (auto simp: calculate_returns_and_std_empty)
    with out show ?thesis
      by (auto simp: calculate_returns_and_std_nonempty)
  qed
  then show ?thesis
    by (simp add: construct_index_def)
qed

theorem outputs_sorted_witness:
  "calculate_returns_and_std boundary_series = Inr boundary_stats \<and>
   sorted (map (\<lambda>r. (ticker r, year r)) boundary_stats) \<and>
   sorted (map year (construct_index two_ticker_stats))"
  using outputs_sorted [of boundary_series boundary_stats two_ticker_stats]
  by (simp add: calc_boundary_stats)

subsection \<open>The combined frame\<close>

text \<open>
  C4. Whatever the download returns, a combined frame that
  \<open>concat_selected_tickers\<close> returns has no row of the year 2025.
\<close>

theorem no_row_of_2025:
  "concat_selected_tickers history tickers = Inr out \<Longrightarrow> r \<in> set out \<Longrightarrow> year r \<noteq> 2025"
  by (auto simp: concat_selected_tickers_def split: sum.splits)

theorem no_row_of_2025_witness:
  "concat_selected_tickers example_history [''TSLA'', ''SPY''] = Inr example_combined \<and>
   example_combined ! 0 \<in> set example_combined \<and>
   year (example_combined ! 0) \<noteq> 2025"
  using no_row_of_2025 [OF concat_example, of "example_combined ! 0"]
  by (simp add: concat_example example_combined_def)

subsection \<open>The two-point series\<close>

text \<open>
  C7, as stated, fails: for the closes 100 and 110 in one year the annualized return
  is not null. The mean of the one defined log-return exists, so the return is
  \<open>exp (52 * ln 1.1) - 1\<close>; only the standard deviation is null.
\<close>

theorem two_point_annualized_return_defined:
  "calculate_returns_and_std two_point_series = Inr two_point_stats \<and>
   map annualized_log_returns two_point_stats \<noteq> [None]"
  by (simp add: calc_two_point_stats) (simp add: two_point_stats_def)

text \<open>
  C7, amended. For two rows of one year with the closes 100 and 110, the log-returns
  are null and \<open>ln 1.1\<close>, and the result is one row with a null
  \<open>annualized_std\<close> and the annualized return \<open>exp (52 * ln 1.1) - 1\<close>.
\<close>

theorem two_point_statistics:
  assumes "df = [\<lparr>year = y, ticker = tk, date = d1, close = Some 100\<rparr>,
                 \<lparr>year = y, ticker = tk', date = d2, close = Some 110\<rparr>]"
  shows "map log_returns (with_log_returns df) = [None, Some (ln (11 / 10))] \<and>
         calculate_returns_and_std df =
           Inr [\<lparr>year = y, ticker = tk,
                  annualized_log_returns = Some (exp (52 * ln (11 / 10)) - 1),
                  annualized_std = None\<rparr>]"
  unfolding assms by (simp add: eval_defs mult.commute)

theorem two_point_statistics_witness:
  "map log_returns (with_log_returns two_point_series) = [None, Some (ln (11 / 10))] \<and>
   calculate_returns_and_std two_point_series = Inr two_point_stats"
  using two_point_statistics [of two_point_series 2024 "''SPY''" "(2024, 1, 1)" "''SPY''" "(2024, 1, 8)"]
  by (simp add: two_point_series_def two_point_stats_def)

subsection \<open>The index\<close>

lemma year_index_year: "year (index_year yg) = fst yg"
  by (simp add: index_year_def)

lemma map_year_construct_index_pre:
  "map year (map index_year (group_by_year t)) = remdups (map year t)"
  by (simp add: group_by_year_def comp_def year_index_year)

lemma distinct_construct_index: "distinct (map year (construct_index t))"
  unfolding construct_index_def distinct_map_sort_key map_year_construct_index_pre
  by simp

lemma set_construct_index:
  "set (construct_index t) =
     (\<lambda>y. index_year (y, filter (\<lambda>x. year x = y) t)) ` year ` set t"
  by (simp add: construct_index_def set_group_by_year image_image)

lemma years_construct_index: "year ` set (construct_index t) = year ` set t"
  by (simp add: set_construct_index image_image year_index_year)

lemma construct_index_row:
  assumes "r \<in> set (construct_index t)"
  shows "r = index_year (year r, filter (\<lambda>x. year x = year r) t)"
proof -
  from assms obtain y where r: "r = index_year (y, filter (\<lambda>x. year x = y) t)"
    by (auto simp: set_construct_index)
  then have "year r = y" by (simp add: year_index_year)
  with r show ?thesis by simp
qed

text \<open>
  C3. The index has exactly one row per year of its input. Each row has the ticker
  \<open>INDEX\<close>, and its two statistics are the unweighted means of the input rows of
  that year: the sum of the non-null cells divided by their number, null when all cells
  are null. Rows of other years take no part.
\<close>

theorem index_rows:
  "distinct (map year (construct_index t)) \<and>
   year ` set (construct_index t) = year ` set t \<and>
   (\<forall>r\<in>set (construct_index t).
      ticker r = ''INDEX'' \<and>
      annualized_log_returns r =
        (let vs = drop_nulls (map annualized_log_returns (filter (\<lambda>x. year x = year r) t))
         in if vs = [] then None else Some (sum_list vs / real (length vs))) \<and>
      annualized_std r =
        (let vs = drop_nulls (map annualized_std (filter (\<lambda>x. year x = year r) t))
         in if vs = [] then None else Some (sum_list vs / real (length vs))))"
proof (intro conjI ballI)
  show "distinct (map year (construct_index t))"
    by (rule distinct_construct_index)
  show "year ` set (construct_index t) = year ` set t"
    by (rule years_construct_index)
next
  fix r assume "r \<in> set (construct_index t)"
  then have r: "r = index_year (year r, filter (\<lambda>x. year x = year r) t)"
    by (rule construct_index_row)
  show "ticker r = ''INDEX''"
    by (subst r) (simp add: index_year_def)
  show "annualized_log_returns r =
        (let vs = drop_nulls (map annualized_log_returns (filter (\<lambda>x. year x = year r) t))
         in if vs = [] then None else Some (sum_list vs / real (length vs)))"
    by (subst r) (simp add: index_year_def pl_mean_def)
  show "annualized_std r =
        (let vs = drop_nulls (map annualized_std (filter (\<lambda>x. year x = year r) t))
         in if vs = [] then None else Some (sum_list vs / real (length vs)))"
    by (subst r) (simp add: index_year_def pl_mean_def)
qed

theorem index_rows_witness:
  "construct_index two_ticker_stats = two_ticker_index \<and>
   distinct (map year two_ticker_index) \<and>
   year ` set two_ticker_index = year ` set two_ticker_stats \<and>
   two_ticker_index ! 1 \<in> set two_ticker_index \<and>
   ticker (two_ticker_index ! 1) = ''INDEX'' \<and>
   annualized_log_returns (two_ticker_index ! 1) = Some ((3 / 10 + 1 / 2) / 2) \<and>
   annualized_std (two_ticker_index ! 1) = Some ((2 / 5) / 1)"
proof -
  have r: "two_ticker_index ! 1 \<in> set two_ticker_index"
    by (simp add: two_ticker_index_def)
  have cells: "annualized_log_returns (two_ticker_index ! 1) = Some ((3 / 10 + 1 / 2) / 2)"
    "annualized_std (two_ticker_index ! 1) = Some ((2 / 5) / 1)"
    by (simp_all add: two_ticker_index_def)
  from index_rows [of two_ticker_stats] r cells show ?thesis
    by (simp del: One_nat_def add: construct_index_two_ticker)
qed

lemma filter_key_single:
  "distinct (map f xs) \<Longrightarrow> x \<in> set xs \<Longrightarrow> filter (\<lambda>r. f r = f x) xs = [x]"
proof (induction xs)
  case Nil
  then show ?case by simp
next
  case (Cons a xs)
  show ?case
  proof (cases "x = a")
    case True
    from Cons.prems(1) have "f a \<notin> f ` set xs" by simp
    then have "\<forall>r\<in>set xs. f r \<noteq> f a" by (metis imageI)
    then have "filter (\<lambda>r. f r = f a) xs = []"
      by (simp add: filter_empty_conv)
    with True show ?thesis by simp
  next
    case False
    with Cons.prems have x: "x \<in> set xs" and "f a \<noteq> f x" by auto
    with Cons show ?thesis by simp
  qed
qed

lemma group_by_year_distinct:
  assumes "distinct (map year df)"
  shows "group_by_year df = map (\<lambda>r. (year r, [r])) df"
proof -
  from assms have "remdups (map year df) = map year df"
    by (rule distinct_remdups_id)
  then have "group_by_year df = map (\<lambda>y. (y, filter (\<lambda>x. year x = y) df)) (map year df)"
    by (simp only: group_by_year_def)
  also have "\<dots> = map (\<lambda>r. (year r, filter (\<lambda>x. year x = year r) df)) df"
    by (simp add: comp_def)
  also have "\<dots> = map (\<lambda>r. (year r, [r])) df"
    using assms by (intro map_cong refl) (simp add: filter_key_single)
  finally show ?thesis .
qed

lemma index_year_single:
  fixes r :: stat_row
  assumes "ticker r = ''INDEX''"
  shows "index_year (year r, [r]) = r"
proof -
  have "pl_mean [c] = c" for c
    by (cases c) (simp_all add: pl_mean_simps)
  with assms show ?thesis
    by (cases r) (simp add: index_year_def)
qed

text \<open>
  C8. Building the index of an index changes nothing.
\<close>

theorem construct_index_idempotent:
  "construct_index (construct_index t) = construct_index t"
proof -
  let ?out = "construct_index t"
  have tick: "ticker r = ''INDEX''" if "r \<in> set ?out" for r
    using construct_index_row [OF that] by (metis index_year_def key_row.select_convs(2))
  have "map index_year (group_by_year ?out) = map (\<lambda>r. index_year (year r, [r])) ?out"
    by (simp add: group_by_year_distinct [OF distinct_construct_index] comp_def)
  also have "\<dots> = ?out"
    by (rule map_idI) (simp add: index_year_single tick)
  finally have "map index_year (group_by_year ?out) = ?out" .
  moreover have "sorted (map year ?out)"
    by (simp add: construct_index_def)
  ultimately show ?thesis
    by (simp add: construct_index_def [of ?out] sort_key_id_if_sorted)
qed

end
